theory Spec2Isabelle
  imports Complex_Main
begin

section \<open>The timeseries router of the backend\<close>

text \<open>
  The development follows \<^verbatim>\<open>backend/src/fastapi_app/routers/timeseries/router.py\<close>.
  Every handler of the router is a function of its query parameters and of the
  collaborators it calls. The collaborators live in modules outside the router
  (\<^verbatim>\<open>services.sumo_access.summary_access\<close>, \<^verbatim>\<open>services.summary_vector_statistics\<close>,
  \<^verbatim>\<open>converters\<close>, \<^verbatim>\<open>schemas\<close>, the authentication helper), so they are parameters of
  the model: a handler is verified for every behaviour they may have.
\<close>

subsection \<open>Outcomes of a call\<close>

text \<open>
  A Python call either returns or raises. \<open>Inl e\<close> is the exception that leaves the
  handler, \<open>Inr x\<close> the value it returns. \<open>HTTPException\<close> is the only exception the
  router raises itself; \<open>Raised\<close> is an exception raised inside a collaborator, known
  by its text, which the router never catches.
\<close>

datatype error = HTTPException (status_code: nat) (detail: string) | Raised string

definition bind_result :: "error + 'a \<Rightarrow> ('a \<Rightarrow> error + 'b) \<Rightarrow> error + 'b" where
  "bind_result r f = (case r of Inl e \<Rightarrow> Inl e | Inr x \<Rightarrow> f x)"

subsection \<open>Data\<close>

text \<open>
  \<^verbatim>\<open>datetime.datetime\<close> is an instant on an integer time line; a \<^verbatim>\<open>float\<close> sample is a
  real number. The router copies both and never computes on them.
\<close>

type_synonym datetime = int

text \<open>
  What the series store hands out for one realization: the router reads
  \<^verbatim>\<open>vec.realization\<close>, \<^verbatim>\<open>vec.timestamps\<close>, \<^verbatim>\<open>vec.values\<close>, \<^verbatim>\<open>vec.metadata.unit\<close> and
  \<^verbatim>\<open>vec.metadata.is_rate\<close>.
\<close>

record sumo_metadata =
  unit :: string
  is_rate :: bool

record sumo_vec =
  realization :: int
  timestamps :: "datetime list"
  "values" :: "real list"
  metadata :: sumo_metadata

text \<open>The response models of \<^verbatim>\<open>schemas\<close> that the router builds.\<close>

record VectorDescription =
  name :: string
  descriptive_name :: string
  has_historical :: bool

record VectorRealizationData =
  realization :: int
  timestamps :: "datetime list"
  "values" :: "real list"
  unit :: string
  is_rate :: bool

text \<open>
  \<^verbatim>\<open>schemas.Frequency\<close> and \<^verbatim>\<open>schemas.StatisticFunction\<close> are enumerations of the request
  contract. The router uses a member only through its \<^verbatim>\<open>.value\<close>, a string, and through
  its truth value; a member of an \<^verbatim>\<open>Enum\<close> is true.
\<close>

datatype schemas_Frequency = schemas_Frequency (enum_value: string)

datatype schemas_StatisticFunction = schemas_StatisticFunction string

text \<open>
  Modelled from the spec: the \<^verbatim>\<open>Frequency\<close> type of
  \<^verbatim>\<open>services.sumo_access.summary_access\<close>, which is not part of the router. The
  frequency model is the enumerated set RAW, DAILY, MONTHLY, YEARLY, where RAW means
  "use the series' own timestamps, unmodified".
\<close>

datatype Frequency = RAW | DAILY | MONTHLY | YEARLY

subsection \<open>Collaborators\<close>

text \<open>The injected \<^verbatim>\<open>AuthenticatedUser\<close>: only its token method is called.\<close>

record AuthenticatedUser =
  get_sumo_access_token :: "error + string"

text \<open>
  A \<^verbatim>\<open>SummaryAccess\<close> object, the series store of one ensemble, with the three methods
  the router calls. The vector table and its metadata are opaque to the router.
\<close>

record ('tab, 'md) summary_access =
  get_vector_names :: "error + string list"
  get_vector :: "string \<Rightarrow> Frequency \<Rightarrow> int list option \<Rightarrow> error + sumo_vec list"
  get_vector_table :: "string \<Rightarrow> Frequency \<Rightarrow> int list option \<Rightarrow> error + ('tab \<times> 'md)"

text \<open>
  The names the router imports: the constructor \<^verbatim>\<open>SummaryAccess(token, case_uuid,
  ensemble_name)\<close>, \<^verbatim>\<open>Frequency.from_string_value\<close>, the two converters,
  \<^verbatim>\<open>compute_vector_statistics\<close>, and Python's truth value of the statistics object
  (\<open>truthy\<close>, the test behind \<^verbatim>\<open>not statistics\<close>).
\<close>

record ('tab, 'md, 'fs, 'st, 'p) services =
  SummaryAccess :: "string \<Rightarrow> string \<Rightarrow> string \<Rightarrow> error + ('tab, 'md) summary_access"
  from_string_value :: "string \<Rightarrow> error + Frequency"
  to_service_statistic_functions :: "schemas_StatisticFunction list option \<Rightarrow> error + 'fs"
  compute_vector_statistics :: "'tab \<Rightarrow> string \<Rightarrow> 'fs \<Rightarrow> error + 'st"
  truthy :: "'st \<Rightarrow> bool"
  to_api_vector_statistic_data :: "'st \<Rightarrow> 'md \<Rightarrow> error + 'p"

subsection \<open>Handlers\<close>

text \<open>\<^verbatim>\<open>GET /vector_names_and_description/\<close>\<close>

definition get_vector_names_and_descriptions ::
  "('tab, 'md, 'fs, 'st, 'p) services \<Rightarrow> AuthenticatedUser \<Rightarrow> string \<Rightarrow> string \<Rightarrow> bool \<Rightarrow> bool
    \<Rightarrow> error + VectorDescription list" where
  "get_vector_names_and_descriptions sv authenticated_user case_uuid ensemble_name
      exclude_all_values_zero exclude_all_values_constant =
     bind_result (get_sumo_access_token authenticated_user) (\<lambda>token.
     bind_result (SummaryAccess sv token case_uuid ensemble_name) (\<lambda>access.
     bind_result (get_vector_names access) (\<lambda>vector_names.
     Inr (map (\<lambda>vector_name.
            \<lparr>name = vector_name, descriptive_name = vector_name, has_historical = False\<rparr>)
          vector_names))))"

text \<open>
  \<^verbatim>\<open>GET /realizations_vector_data/\<close>. The loop appends one response model per fetched
  series to \<open>ret_arr\<close>.
\<close>

definition to_realization_data :: "sumo_vec \<Rightarrow> VectorRealizationData" where
  "to_realization_data vec =
     \<lparr>realization = sumo_vec.realization vec, timestamps = sumo_vec.timestamps vec,
      values = sumo_vec.values vec, unit = sumo_metadata.unit (metadata vec),
      is_rate = sumo_metadata.is_rate (metadata vec)\<rparr>"

fun append_realizations ::
  "VectorRealizationData list \<Rightarrow> sumo_vec list \<Rightarrow> VectorRealizationData list" where
  "append_realizations ret_arr [] = ret_arr"
| "append_realizations ret_arr (vec # sumo_vec_arr) =
     append_realizations (ret_arr @ [to_realization_data vec]) sumo_vec_arr"

definition frequency_string :: "schemas_Frequency option \<Rightarrow> string" where
  "frequency_string resampling_frequency =
     (case resampling_frequency of
        Some f \<Rightarrow> enum_value f
      | None \<Rightarrow> ''dummy'')"

definition get_realizations_vector_data ::
  "('tab, 'md, 'fs, 'st, 'p) services \<Rightarrow> AuthenticatedUser \<Rightarrow> string \<Rightarrow> string \<Rightarrow> string
    \<Rightarrow> schemas_Frequency option \<Rightarrow> int list option \<Rightarrow> datetime option
    \<Rightarrow> error + VectorRealizationData list" where
  "get_realizations_vector_data sv authenticated_user case_uuid ensemble_name vector_name
      resampling_frequency realizations relative_to_timestamp =
     bind_result (get_sumo_access_token authenticated_user) (\<lambda>token.
     bind_result (SummaryAccess sv token case_uuid ensemble_name) (\<lambda>access.
     bind_result (from_string_value sv (frequency_string resampling_frequency)) (\<lambda>sumo_freq.
     bind_result (get_vector access vector_name sumo_freq realizations) (\<lambda>sumo_vec_arr.
     Inr (append_realizations [] sumo_vec_arr)))))"

text \<open>
  \<^verbatim>\<open>GET /timestamps/\<close>. The body of the handler is the single expression \<^verbatim>\<open>...\<close>: it
  calls nothing and returns Python's \<^verbatim>\<open>None\<close>.
\<close>

definition get_timestamps ::
  "AuthenticatedUser \<Rightarrow> string \<Rightarrow> string \<Rightarrow> schemas_Frequency option \<Rightarrow> int list option
    \<Rightarrow> error + datetime list option" where
  "get_timestamps authenticated_user case_uuid ensemble_name resampling_frequency realizations =
     Inr None"

text \<open>\<^verbatim>\<open>GET /statistical_vector_data/\<close>\<close>

definition get_statistical_vector_data ::
  "('tab, 'md, 'fs, 'st, 'p) services \<Rightarrow> AuthenticatedUser \<Rightarrow> string \<Rightarrow> string \<Rightarrow> string
    \<Rightarrow> schemas_Frequency \<Rightarrow> schemas_StatisticFunction list option \<Rightarrow> int list option
    \<Rightarrow> datetime option \<Rightarrow> error + 'p" where
  "get_statistical_vector_data sv authenticated_user case_uuid ensemble_name vector_name
      resampling_frequency statistic_functions realizations relative_to_timestamp =
     bind_result (get_sumo_access_token authenticated_user) (\<lambda>token.
     bind_result (SummaryAccess sv token case_uuid ensemble_name) (\<lambda>access.
     bind_result (from_string_value sv (enum_value resampling_frequency)) (\<lambda>service_freq.
     bind_result (to_service_statistic_functions sv statistic_functions)
       (\<lambda>service_stat_funcs_to_compute.
     bind_result (get_vector_table access vector_name service_freq realizations)
       (\<lambda>(vector_table, vector_metadata).
     bind_result (compute_vector_statistics sv vector_table vector_name
                    service_stat_funcs_to_compute) (\<lambda>statistics.
     if \<not> truthy sv statistics
     then Inl (HTTPException 404 ''Could not compute statistics'')
     else to_api_vector_statistic_data sv statistics vector_metadata))))))"

text \<open>
  \<^verbatim>\<open>GET /realizations_calculated_vector_data/\<close>. The handler prints the expression and
  its type and returns the string \<^verbatim>\<open>"hei"\<close>; the model returns what was printed
  together with the result.
\<close>

datatype 'e printed = Printed_object 'e | Printed_type_of 'e

definition get_realizations_calculated_vector_data ::
  "AuthenticatedUser \<Rightarrow> string \<Rightarrow> string \<Rightarrow> 'e \<Rightarrow> schemas_Frequency option \<Rightarrow> datetime option
    \<Rightarrow> 'e printed list \<times> string" where
  "get_realizations_calculated_vector_data authenticated_user case_uuid ensemble_name expression
      resampling_frequency relative_to_timestamp =
     ([Printed_object expression, Printed_type_of expression], ''hei'')"

section \<open>The engine behind the router\<close>

subsection \<open>Resampling of rate series\<close>

text \<open>
  Modelled from the spec: the Resampler (section 4.2), whose code is not part of the
  router; it runs inside the series store. Only its policy for rate quantities is
  needed here. A raw series is an ordered sequence of (timestamp, value) pairs with
  strictly increasing timestamps. For \<open>is_rate = true\<close> the value at a grid timestamp
  is the value of the last raw point at or before it, and a grid point with no such raw
  point is absent (\<open>None\<close>). The resampled series has one entry per grid timestamp.
\<close>

type_synonym raw_series = "(datetime \<times> real) list"

text \<open>
  Modelled from the spec: the invariant of a raw series (section 3), strictly
  increasing and hence unique timestamps.
\<close>

definition strictly_increasing :: "raw_series \<Rightarrow> bool" where
  "strictly_increasing raw = sorted_wrt (<) (map fst raw)"

text \<open>
  Modelled from the spec: the raw points "at or before" a grid timestamp, in the order
  of the series.
\<close>

definition points_at_or_before :: "raw_series \<Rightarrow> datetime \<Rightarrow> raw_series" where
  "points_at_or_before raw g = filter (\<lambda>p. fst p \<le> g) raw"

text \<open>
  Modelled from the spec: previous-value-hold, "the value of the last raw point at or
  before" the grid timestamp; absent when there is none.
\<close>

definition step_hold :: "raw_series \<Rightarrow> datetime \<Rightarrow> real option" where
  "step_hold raw g =
     (case points_at_or_before raw g of
        [] \<Rightarrow> None
      | p # ps \<Rightarrow> Some (snd (last (p # ps))))"

text \<open>
  Modelled from the spec: \<^verbatim>\<open>resample(raw_series, target_grid, is_rate)\<close> for
  \<open>is_rate = true\<close>, one value per grid timestamp.
\<close>

definition resample_rate :: "raw_series \<Rightarrow> datetime list \<Rightarrow> (datetime \<times> real option) list" where
  "resample_rate raw target_grid = map (\<lambda>g. (g, step_hold raw g)) target_grid"

subsection \<open>Statistics over an aligned set\<close>

text \<open>
  Modelled from the spec: the Statistics Aggregator (section 4.6), which stands for
  \<^verbatim>\<open>compute_vector_statistics\<close> of \<^verbatim>\<open>services.summary_vector_statistics\<close>; that module
  is not part of the router. An aligned set is a grid of timestamps and, for each
  realization, values aligned index for index with the grid, absent where the
  realization has no coverage. For each grid timestamp the present values are
  collected and every requested statistic is computed from them; a grid point with no
  present value yields the undefined marker (\<open>None\<close>). If no statistics are specified,
  all supported statistics are computed. If the aligned set has no grid points, there
  is no result. The numeric formula of each statistic is the parameter \<open>stat_of\<close>.
\<close>

text \<open>Modelled from the spec: the aligned set (section 3).\<close>

record aligned_set =
  grid :: "datetime list"
  realization_values :: "(int \<times> real option list) list"

text \<open>
  Modelled from the spec: the supported statistics, mean, minimum, maximum, population
  standard deviation and the percentiles P10 and P90.
\<close>

datatype StatisticFunction = Mean | Minimum | Maximum | Std | P10 | P90

definition all_statistic_functions :: "StatisticFunction list" where
  "all_statistic_functions = [Mean, Minimum, Maximum, Std, P10, P90]"

text \<open>
  Modelled from the spec: the statistic result (section 3), the grid and one sequence
  of values per requested statistic, aligned with the grid.
\<close>

record statistic_result =
  result_grid :: "datetime list"
  statistic_values :: "(StatisticFunction \<times> real option list) list"

text \<open>
  Modelled from the spec: the present values of all realizations at one grid index.
\<close>

definition value_at :: "real option list \<Rightarrow> nat \<Rightarrow> real option" where
  "value_at vs k = (if k < length vs then vs ! k else None)"

definition present_values :: "aligned_set \<Rightarrow> nat \<Rightarrow> real list" where
  "present_values a k =
     concat (map (\<lambda>(r, vs). case value_at vs k of None \<Rightarrow> [] | Some v \<Rightarrow> [v])
               (realization_values a))"

text \<open>
  Modelled from the spec: one statistic at one grid index, undefined when no value is
  present there.
\<close>

definition statistic_at ::
  "(StatisticFunction \<Rightarrow> real list \<Rightarrow> real) \<Rightarrow> aligned_set \<Rightarrow> StatisticFunction \<Rightarrow> nat
    \<Rightarrow> real option" where
  "statistic_at stat_of a f k =
     (case present_values a k of
        [] \<Rightarrow> None
      | v # vs \<Rightarrow> Some (stat_of f (v # vs)))"

text \<open>
  Modelled from the spec: \<^verbatim>\<open>aggregate(aligned_set, requested_statistics)\<close>, in the
  place of \<^verbatim>\<open>compute_vector_statistics\<close>.
\<close>

definition aggregate ::
  "(StatisticFunction \<Rightarrow> real list \<Rightarrow> real) \<Rightarrow> aligned_set \<Rightarrow> StatisticFunction list option
    \<Rightarrow> statistic_result option" where
  "aggregate stat_of a requested_statistics =
     (case grid a of
        [] \<Rightarrow> None
      | t # ts \<Rightarrow>
          Some \<lparr>result_grid = grid a,
                statistic_values =
                  map (\<lambda>f. (f, map (statistic_at stat_of a f) [0..<length (grid a)]))
                    (case requested_statistics of
                       None \<Rightarrow> all_statistic_functions
                     | Some fs \<Rightarrow> fs)\<rparr>)"

section \<open>A small ensemble\<close>

text \<open>
  Two realizations of the vector FOPT, with raw timestamps 1, 2, 3 and 2, 3, 4. The
  store hands them out in raw mode only, and has an empty table for any other vector.
\<close>

definition example_user :: AuthenticatedUser where
  "example_user = \<lparr>get_sumo_access_token = Inr ''token''\<rparr>"

definition example_vectors :: "sumo_vec list" where
  "example_vectors =
     [sumo_vec.make 0 [1, 2, 3] [10, 20, 30] (sumo_metadata.make ''SM3'' False),
      sumo_vec.make 1 [2, 3, 4] [5, 7, 9] (sumo_metadata.make ''SM3'' False)]"

definition example_table :: aligned_set where
  "example_table =
     \<lparr>grid = [2, 3],
      realization_values = [(0, [Some 20, Some 30]), (1, [Some 5, Some 7])]\<rparr>"

definition empty_table :: aligned_set where
  "empty_table = \<lparr>grid = [], realization_values = []\<rparr>"

definition example_access :: "(aligned_set, sumo_metadata) summary_access" where
  "example_access =
     \<lparr>get_vector_names = Inr [''FOPT'', ''FOPR''],
      get_vector = (\<lambda>vector_name freq realizations.
         if vector_name = ''FOPT'' \<and> freq = RAW then Inr example_vectors else Inr []),
      get_vector_table = (\<lambda>vector_name freq realizations.
         if vector_name = ''FOPT'' then Inr (example_table, sumo_metadata.make ''SM3'' False)
         else Inr (empty_table, sumo_metadata.make ''SM3'' False))\<rparr>"

definition example_from_string_value :: "string \<Rightarrow> error + Frequency" where
  "example_from_string_value s =
     Inr (if s = ''DAILY'' then DAILY else if s = ''MONTHLY'' then MONTHLY
          else if s = ''YEARLY'' then YEARLY else RAW)"

definition example_statistic_function :: "schemas_StatisticFunction \<Rightarrow> StatisticFunction" where
  "example_statistic_function f =
     (case f of schemas_StatisticFunction s \<Rightarrow>
        if s = ''MIN'' then Minimum else if s = ''MAX'' then Maximum
        else if s = ''STD'' then Std else if s = ''P10'' then P10
        else if s = ''P90'' then P90 else Mean)"

definition example_stat_of :: "StatisticFunction \<Rightarrow> real list \<Rightarrow> real" where
  "example_stat_of f vs =
     (case f of Minimum \<Rightarrow> Min (set vs) | Maximum \<Rightarrow> Max (set vs)
      | _ \<Rightarrow> sum_list vs / real (length vs))"

definition example_services ::
  "(aligned_set, sumo_metadata, StatisticFunction list option, statistic_result option,
    statistic_result option \<times> sumo_metadata) services" where
  "example_services =
     \<lparr>SummaryAccess = (\<lambda>token case_uuid ensemble_name. Inr example_access),
      from_string_value = example_from_string_value,
      to_service_statistic_functions =
        (\<lambda>fs. Inr (map_option (map example_statistic_function) fs)),
      compute_vector_statistics =
        (\<lambda>vector_table vector_name fs. Inr (aggregate example_stat_of vector_table fs)),
      truthy = (\<lambda>statistics. statistics \<noteq> None),
      to_api_vector_statistic_data = (\<lambda>statistics md. Inr (statistics, md))\<rparr>"

section \<open>Properties of the handlers\<close>

subsection \<open>Auxiliary facts\<close>

lemma bind_result_Inr: "bind_result (Inr x) f = f x"
  by (simp add: bind_result_def)

text \<open>The loop of \<^verbatim>\<open>get_realizations_vector_data\<close> appends the converted series in order.\<close>

lemma append_realizations_map:
  "append_realizations ret_arr sumo_vec_arr = ret_arr @ map to_realization_data sumo_vec_arr"
  by (induction sumo_vec_arr arbitrary: ret_arr) simp_all

text \<open>
  The last element that a filter keeps sits at the greatest index whose element passes
  the test.
\<close>

lemma last_filter_index:
  assumes "filter P xs \<noteq> []"
  shows "\<exists>i<length xs. P (xs ! i) \<and> (\<forall>j<length xs. i < j \<longrightarrow> \<not> P (xs ! j))
           \<and> last (filter P xs) = xs ! i"
  using assms
proof (induction xs rule: rev_induct)
  case Nil
  then show ?case by simp
next
  case (snoc x xs)
  show ?case
  proof (cases "P x")
    case True
    then have "length xs < length (xs @ [x]) \<and> P ((xs @ [x]) ! length xs)
        \<and> (\<forall>j<length (xs @ [x]). length xs < j \<longrightarrow> \<not> P ((xs @ [x]) ! j))
        \<and> last (filter P (xs @ [x])) = (xs @ [x]) ! length xs"
      by simp
    then show ?thesis by blast
  next
    case False
    with snoc.prems have "filter P xs \<noteq> []" by simp
    from snoc.IH [OF this] obtain i where i: "i < length xs" "P (xs ! i)"
      "\<forall>j<length xs. i < j \<longrightarrow> \<not> P (xs ! j)" "last (filter P xs) = xs ! i"
      by blast
    have "\<forall>j<length (xs @ [x]). i < j \<longrightarrow> \<not> P ((xs @ [x]) ! j)"
    proof (intro allI impI)
      fix j assume "j < length (xs @ [x])" "i < j"
      then show "\<not> P ((xs @ [x]) ! j)"
        using i(3) False by (cases "j < length xs") (auto simp add: nth_append)
    qed
    moreover have "last (filter P (xs @ [x])) = (xs @ [x]) ! i"
      using i(1,4) False by (simp add: nth_append)
    moreover have "P ((xs @ [x]) ! i)" using i(1,2) by (simp add: nth_append)
    moreover have "i < length (xs @ [x])" using i(1) by simp
    ultimately show ?thesis by blast
  qed
qed

lemma step_hold_present:
  assumes "raw \<noteq> []" and "fst (hd raw) \<le> g"
  shows "\<exists>i<length raw. fst (raw ! i) \<le> g \<and> (\<forall>j<length raw. i < j \<longrightarrow> g < fst (raw ! j))
           \<and> step_hold raw g = Some (snd (raw ! i))"
proof -
  from assms have "hd raw \<in> set (filter (\<lambda>p. fst p \<le> g) raw)" by simp
  then have ne: "filter (\<lambda>p. fst p \<le> g) raw \<noteq> []" by (metis empty_iff empty_set)
  from last_filter_index [OF ne] obtain i where i: "i < length raw" "fst (raw ! i) \<le> g"
    "\<forall>j<length raw. i < j \<longrightarrow> \<not> fst (raw ! j) \<le> g"
    "last (filter (\<lambda>p. fst p \<le> g) raw) = raw ! i"
    by blast
  from ne obtain p ps where ps: "filter (\<lambda>p. fst p \<le> g) raw = p # ps"
    by (cases "filter (\<lambda>p. fst p \<le> g) raw") auto
  then have "step_hold raw g = Some (snd (last (filter (\<lambda>p. fst p \<le> g) raw)))"
    by (simp add: step_hold_def points_at_or_before_def)
  with i(4) have "step_hold raw g = Some (snd (raw ! i))" by simp
  moreover from i(3) have "\<forall>j<length raw. i < j \<longrightarrow> g < fst (raw ! j)"
    by (simp add: not_le)
  ultimately show ?thesis using i(1,2) by blast
qed

lemma step_hold_absent:
  assumes "raw \<noteq> []" and "strictly_increasing raw" and "g < fst (hd raw)"
  shows "step_hold raw g = None"
proof -
  obtain p ps where raw: "raw = p # ps" using assms(1) by (cases raw) auto
  with assms(2) have "\<forall>q\<in>set ps. fst p < fst q"
    by (simp add: strictly_increasing_def)
  with assms(3) raw have "\<forall>q\<in>set raw. g < fst q" by auto
  then have "filter (\<lambda>p. fst p \<le> g) raw = []"
    by (simp add: filter_empty_conv not_le)
  then show ?thesis by (simp add: step_hold_def points_at_or_before_def)
qed

text \<open>
  The handler of \<^verbatim>\<open>/realizations_vector_data/\<close> never reads \<open>relative_to_timestamp\<close>.
\<close>

lemma relative_to_timestamp_unused:
  "get_realizations_vector_data sv authenticated_user case_uuid ensemble_name vector_name
     resampling_frequency realizations relative_to_timestamp
   = get_realizations_vector_data sv authenticated_user case_uuid ensemble_name vector_name
       resampling_frequency realizations None"
  by (simp add: get_realizations_vector_data_def)

subsection \<open>Statistics that cannot be computed\<close>

text \<open>
  C1. A statistics request whose computation yields no result is answered with
  not-found: when \<^verbatim>\<open>compute_vector_statistics\<close> returns a false value, the handler
  raises the HTTP exception with status 404, and a payload is returned only for a true
  statistics object, from which it is converted. The aggregator of section 4.6 returns
  no result on an aligned set with an empty grid, so such a request (the vector FGPT of
  the small ensemble) ends in 404.
\<close>

theorem statistics_not_found:
  assumes "get_sumo_access_token authenticated_user = Inr token"
    and "SummaryAccess sv token case_uuid ensemble_name = Inr access"
    and "from_string_value sv (enum_value resampling_frequency) = Inr service_freq"
    and "to_service_statistic_functions sv statistic_functions = Inr fs"
    and "get_vector_table access vector_name service_freq realizations
          = Inr (vector_table, vector_metadata)"
    and "compute_vector_statistics sv vector_table vector_name fs = Inr statistics"
  shows "(\<not> truthy sv statistics \<longrightarrow>
            get_statistical_vector_data sv authenticated_user case_uuid ensemble_name
              vector_name resampling_frequency statistic_functions realizations
              relative_to_timestamp
            = Inl (HTTPException 404 ''Could not compute statistics''))
       \<and> (truthy sv statistics \<longrightarrow>
            get_statistical_vector_data sv authenticated_user case_uuid ensemble_name
              vector_name resampling_frequency statistic_functions realizations
              relative_to_timestamp
            = to_api_vector_statistic_data sv statistics vector_metadata)"
  using assms by (simp add: get_statistical_vector_data_def bind_result_Inr)

theorem statistics_not_found_witness:
  "aggregate example_stat_of empty_table None = None
   \<and> get_statistical_vector_data example_services example_user ''case'' ''iter-0'' ''FGPT''
        (schemas_Frequency ''MONTHLY'') None None None
      = Inl (HTTPException 404 ''Could not compute statistics'')
   \<and> get_statistical_vector_data example_services example_user ''case'' ''iter-0'' ''FOPT''
        (schemas_Frequency ''MONTHLY'') (Some []) None None
      = Inr (Some \<lparr>result_grid = [2, 3], statistic_values = []\<rparr>,
             sumo_metadata.make ''SM3'' False)"
proof -
  have "get_statistical_vector_data example_services example_user ''case'' ''iter-0'' ''FGPT''
        (schemas_Frequency ''MONTHLY'') None None None
      = Inl (HTTPException 404 ''Could not compute statistics'')"
    using statistics_not_found [where authenticated_user = example_user
        and token = "''token''" and sv = example_services and case_uuid = "''case''"
        and ensemble_name = "''iter-0''" and access = example_access
        and resampling_frequency = "schemas_Frequency ''MONTHLY''"
        and service_freq = MONTHLY and statistic_functions = None and fs = None
        and vector_name = "''FGPT''" and realizations = None and vector_table = empty_table
        and vector_metadata = "sumo_metadata.make ''SM3'' False" and statistics = None
        and relative_to_timestamp = None]
    by (simp add: example_user_def example_services_def example_access_def
        example_from_string_value_def aggregate_def empty_table_def)
  moreover have "get_statistical_vector_data example_services example_user ''case'' ''iter-0''
        ''FOPT'' (schemas_Frequency ''MONTHLY'') (Some []) None None
      = Inr (Some \<lparr>result_grid = [2, 3], statistic_values = []\<rparr>,
             sumo_metadata.make ''SM3'' False)"
    using statistics_not_found [where authenticated_user = example_user
        and token = "''token''" and sv = example_services and case_uuid = "''case''"
        and ensemble_name = "''iter-0''" and access = example_access
        and resampling_frequency = "schemas_Frequency ''MONTHLY''"
        and service_freq = MONTHLY and statistic_functions = "Some []" and fs = "Some []"
        and vector_name = "''FOPT''" and realizations = None and vector_table = example_table
        and vector_metadata = "sumo_metadata.make ''SM3'' False"
        and statistics = "Some \<lparr>result_grid = [2, 3], statistic_values = []\<rparr>"
        and relative_to_timestamp = None]
    by (simp add: example_user_def example_services_def example_access_def
        example_from_string_value_def aggregate_def example_table_def)
  moreover have "aggregate example_stat_of empty_table None = None"
    by (simp add: aggregate_def empty_table_def)
  ultimately show ?thesis by blast
qed

subsection \<open>Realization data\<close>

text \<open>
  C3. With a reference timestamp, every returned realization should have its baseline
  value subtracted from every point. The handler does not do so: for the small ensemble
  and the reference timestamp 2, where realization 0 has the value 20 and realization 1
  the value 5, it returns the values 10, 20, 30 and 5, 7, 9 of the store unchanged.
\<close>

theorem relative_to_timestamp_ignored:
  "get_realizations_vector_data example_services example_user ''case'' ''iter-0'' ''FOPT''
     None None (Some 2)
   = Inr [\<lparr>realization = 0, timestamps = [1, 2, 3], values = [10, 20, 30], unit = ''SM3'',
            is_rate = False\<rparr>,
          \<lparr>realization = 1, timestamps = [2, 3, 4], values = [5, 7, 9], unit = ''SM3'',
            is_rate = False\<rparr>]"
  by (simp add: get_realizations_vector_data_def frequency_string_def bind_result_Inr
      example_user_def example_services_def example_access_def example_from_string_value_def
      example_vectors_def to_realization_data_def sumo_vec.defs sumo_metadata.defs)

text \<open>
  C10. The handler of \<^verbatim>\<open>/realizations_vector_data/\<close> returns exactly one
  \<open>VectorRealizationData\<close> per series that the store returned, in the same order, with
  the realization id, timestamps, values, unit and rate flag of that series.
\<close>

theorem realization_data_copied:
  assumes "get_sumo_access_token authenticated_user = Inr token"
    and "SummaryAccess sv token case_uuid ensemble_name = Inr access"
    and "from_string_value sv (frequency_string resampling_frequency) = Inr sumo_freq"
    and "get_vector access vector_name sumo_freq realizations = Inr sumo_vec_arr"
  shows "\<exists>ret_arr.
      get_realizations_vector_data sv authenticated_user case_uuid ensemble_name vector_name
        resampling_frequency realizations relative_to_timestamp = Inr ret_arr
      \<and> length ret_arr = length sumo_vec_arr
      \<and> (\<forall>i<length sumo_vec_arr.
            realization (ret_arr ! i) = sumo_vec.realization (sumo_vec_arr ! i)
            \<and> timestamps (ret_arr ! i) = sumo_vec.timestamps (sumo_vec_arr ! i)
            \<and> values (ret_arr ! i) = sumo_vec.values (sumo_vec_arr ! i)
            \<and> unit (ret_arr ! i) = sumo_metadata.unit (metadata (sumo_vec_arr ! i))
            \<and> is_rate (ret_arr ! i) = sumo_metadata.is_rate (metadata (sumo_vec_arr ! i)))"
  using assms
  by (simp add: get_realizations_vector_data_def bind_result_Inr append_realizations_map
      to_realization_data_def)

theorem realization_data_copied_witness:
  "\<exists>ret_arr.
      get_realizations_vector_data example_services example_user ''case'' ''iter-0'' ''FOPT''
        None (Some [0, 1]) None = Inr ret_arr
      \<and> length ret_arr = 2
      \<and> realization (ret_arr ! 1) = 1
      \<and> timestamps (ret_arr ! 1) = [2, 3, 4]
      \<and> values (ret_arr ! 1) = [5, 7, 9]
      \<and> unit (ret_arr ! 1) = ''SM3''
      \<and> is_rate (ret_arr ! 1) = False"
proof -
  have "\<exists>ret_arr.
      get_realizations_vector_data example_services example_user ''case'' ''iter-0'' ''FOPT''
        None (Some [0, 1]) None = Inr ret_arr
      \<and> length ret_arr = length example_vectors
      \<and> (\<forall>i<length example_vectors.
            realization (ret_arr ! i) = sumo_vec.realization (example_vectors ! i)
            \<and> timestamps (ret_arr ! i) = sumo_vec.timestamps (example_vectors ! i)
            \<and> values (ret_arr ! i) = sumo_vec.values (example_vectors ! i)
            \<and> unit (ret_arr ! i) = sumo_metadata.unit (metadata (example_vectors ! i))
            \<and> is_rate (ret_arr ! i) = sumo_metadata.is_rate (metadata (example_vectors ! i)))"
    using realization_data_copied [where authenticated_user = example_user
        and token = "''token''" and sv = example_services and case_uuid = "''case''"
        and ensemble_name = "''iter-0''" and access = example_access
        and resampling_frequency = None and sumo_freq = RAW and vector_name = "''FOPT''"
        and realizations = "Some [0, 1]" and sumo_vec_arr = example_vectors
        and relative_to_timestamp = None]
    by (simp add: example_user_def example_services_def example_access_def
        example_from_string_value_def frequency_string_def)
  then obtain ret_arr where r:
    "get_realizations_vector_data example_services example_user ''case'' ''iter-0'' ''FOPT''
        None (Some [0, 1]) None = Inr ret_arr"
    "length ret_arr = length example_vectors"
    "\<forall>i<length example_vectors.
            realization (ret_arr ! i) = sumo_vec.realization (example_vectors ! i)
            \<and> timestamps (ret_arr ! i) = sumo_vec.timestamps (example_vectors ! i)
            \<and> values (ret_arr ! i) = sumo_vec.values (example_vectors ! i)
            \<and> unit (ret_arr ! i) = sumo_metadata.unit (metadata (example_vectors ! i))
            \<and> is_rate (ret_arr ! i) = sumo_metadata.is_rate (metadata (example_vectors ! i))"
    by blast
  have "(1::nat) < length example_vectors" by (simp add: example_vectors_def)
  with r(3) have "realization (ret_arr ! 1) = sumo_vec.realization (example_vectors ! 1)
            \<and> timestamps (ret_arr ! 1) = sumo_vec.timestamps (example_vectors ! 1)
            \<and> values (ret_arr ! 1) = sumo_vec.values (example_vectors ! 1)
            \<and> unit (ret_arr ! 1) = sumo_metadata.unit (metadata (example_vectors ! 1))
            \<and> is_rate (ret_arr ! 1) = sumo_metadata.is_rate (metadata (example_vectors ! 1))"
    by blast
  then have "realization (ret_arr ! 1) = 1
      \<and> timestamps (ret_arr ! 1) = [2, 3, 4]
      \<and> values (ret_arr ! 1) = [5, 7, 9]
      \<and> unit (ret_arr ! 1) = ''SM3''
      \<and> is_rate (ret_arr ! 1) = False"
    by (simp add: example_vectors_def sumo_vec.defs sumo_metadata.defs)
  moreover from r(2) have "length ret_arr = 2" by (simp add: example_vectors_def)
  ultimately show ?thesis using r(1) by blast
qed

subsection \<open>Vector names\<close>

text \<open>
  C8. The handler of \<^verbatim>\<open>/vector_names_and_description/\<close> returns one description per
  vector name that the store supplies, in the same order; every description has its
  name as descriptive name and is not historical.
\<close>

theorem vector_descriptions_mirror_names:
  assumes "get_sumo_access_token authenticated_user = Inr token"
    and "SummaryAccess sv token case_uuid ensemble_name = Inr access"
    and "get_vector_names access = Inr vector_names"
  shows "\<exists>ret_arr.
      get_vector_names_and_descriptions sv authenticated_user case_uuid ensemble_name
        exclude_all_values_zero exclude_all_values_constant = Inr ret_arr
      \<and> length ret_arr = length vector_names
      \<and> (\<forall>i<length vector_names.
            name (ret_arr ! i) = vector_names ! i
            \<and> descriptive_name (ret_arr ! i) = name (ret_arr ! i)
            \<and> has_historical (ret_arr ! i) = False)"
  using assms
  by (simp add: get_vector_names_and_descriptions_def bind_result_Inr)

theorem vector_descriptions_mirror_names_witness:
  "\<exists>ret_arr.
      get_vector_names_and_descriptions example_services example_user ''case'' ''iter-0''
        True True = Inr ret_arr
      \<and> length ret_arr = length [''FOPT'', ''FOPR'']
      \<and> (\<forall>i<length [''FOPT'', ''FOPR''].
            name (ret_arr ! i) = [''FOPT'', ''FOPR''] ! i
            \<and> descriptive_name (ret_arr ! i) = name (ret_arr ! i)
            \<and> has_historical (ret_arr ! i) = False)"
  using vector_descriptions_mirror_names [where authenticated_user = example_user
      and token = "''token''" and sv = example_services and case_uuid = "''case''"
      and ensemble_name = "''iter-0''" and access = example_access
      and vector_names = "[''FOPT'', ''FOPR'']" and exclude_all_values_zero = True
      and exclude_all_values_constant = True]
  by (simp add: example_user_def example_services_def example_access_def)

text \<open>
  C9. Two calls of the handler of \<^verbatim>\<open>/vector_names_and_description/\<close> that differ only
  in \<open>exclude_all_values_zero\<close> and \<open>exclude_all_values_constant\<close> have the same outcome:
  the two flags have no effect.
\<close>

theorem exclude_flags_have_no_effect:
  "get_vector_names_and_descriptions sv authenticated_user case_uuid ensemble_name
     exclude_all_values_zero exclude_all_values_constant
   = get_vector_names_and_descriptions sv authenticated_user case_uuid ensemble_name
       exclude_all_values_zero' exclude_all_values_constant'"
  by (simp add: get_vector_names_and_descriptions_def)

theorem exclude_flags_have_no_effect_witness:
  "get_vector_names_and_descriptions example_services example_user ''case'' ''iter-0''
     True True
   = Inr [\<lparr>name = ''FOPT'', descriptive_name = ''FOPT'', has_historical = False\<rparr>,
          \<lparr>name = ''FOPR'', descriptive_name = ''FOPR'', has_historical = False\<rparr>]"
proof -
  have "get_vector_names_and_descriptions example_services example_user ''case'' ''iter-0''
     False False
   = Inr [\<lparr>name = ''FOPT'', descriptive_name = ''FOPT'', has_historical = False\<rparr>,
          \<lparr>name = ''FOPR'', descriptive_name = ''FOPR'', has_historical = False\<rparr>]"
    by (simp add: get_vector_names_and_descriptions_def bind_result_Inr example_user_def
        example_services_def example_access_def)
  then show ?thesis
    using exclude_flags_have_no_effect [where sv = example_services
        and authenticated_user = example_user and case_uuid = "''case''"
        and ensemble_name = "''iter-0''" and exclude_all_values_zero = True
        and exclude_all_values_constant = True and exclude_all_values_zero' = False
        and exclude_all_values_constant' = False]
    by simp
qed

subsection \<open>Timestamps and calculated vectors\<close>

text \<open>
  C4. The handler of \<^verbatim>\<open>/timestamps/\<close> should return the intersection of the raw
  timestamps when no frequency is given, and the frequency grid over the whole time
  range otherwise. It returns \<^verbatim>\<open>None\<close> in both cases: for the two realizations of the
  small ensemble, whose raw timestamps 1, 2, 3 and 2, 3, 4 intersect in 2, 3, no list
  of timestamps is returned.
\<close>

theorem timestamps_not_computed:
  "get_timestamps example_user ''case'' ''iter-0'' None (Some [0, 1]) = Inr None
   \<and> get_timestamps example_user ''case'' ''iter-0'' (Some (schemas_Frequency ''DAILY''))
       (Some [0, 1]) = Inr None"
  by (simp add: get_timestamps_def)

text \<open>
  C5. The handler of \<^verbatim>\<open>/realizations_calculated_vector_data/\<close> should return the data
  of the expression evaluated per realization and grid timestamp. It evaluates nothing:
  for the expression FOPT / FGPT it prints the expression and its type and returns the
  string \<^verbatim>\<open>"hei"\<close>.
\<close>

theorem calculated_vector_is_placeholder:
  "get_realizations_calculated_vector_data example_user ''case'' ''iter-0'' ''FOPT / FGPT''
     None None
   = ([Printed_object ''FOPT / FGPT'', Printed_type_of ''FOPT / FGPT''], ''hei'')"
  by (simp add: get_realizations_calculated_vector_data_def)

subsection \<open>Step hold of rate series\<close>

text \<open>
  C7. For a rate series with at least one raw point and strictly increasing timestamps,
  the resampled series has one entry per grid timestamp; at a grid timestamp at or after
  the first raw point its value is the value of the last raw point at or before that
  timestamp (the raw point of greatest index whose timestamp is not later), and at a
  grid timestamp strictly before the first raw point it is absent.
\<close>

theorem rate_step_hold:
  assumes "raw \<noteq> []" and "strictly_increasing raw" and "k < length target_grid"
  shows "length (resample_rate raw target_grid) = length target_grid
       \<and> fst (resample_rate raw target_grid ! k) = target_grid ! k
       \<and> (fst (hd raw) \<le> target_grid ! k \<longrightarrow>
            (\<exists>i<length raw. fst (raw ! i) \<le> target_grid ! k
                \<and> (\<forall>j<length raw. i < j \<longrightarrow> target_grid ! k < fst (raw ! j))
                \<and> snd (resample_rate raw target_grid ! k) = Some (snd (raw ! i))))
       \<and> (target_grid ! k < fst (hd raw) \<longrightarrow> snd (resample_rate raw target_grid ! k) = None)"
proof -
  have entry: "resample_rate raw target_grid ! k = (target_grid ! k, step_hold raw (target_grid ! k))"
    using assms(3) by (simp add: resample_rate_def)
  have "length (resample_rate raw target_grid) = length target_grid"
    by (simp add: resample_rate_def)
  moreover have "fst (resample_rate raw target_grid ! k) = target_grid ! k"
    by (simp add: entry)
  moreover have "fst (hd raw) \<le> target_grid ! k \<longrightarrow>
            (\<exists>i<length raw. fst (raw ! i) \<le> target_grid ! k
                \<and> (\<forall>j<length raw. i < j \<longrightarrow> target_grid ! k < fst (raw ! j))
                \<and> snd (resample_rate raw target_grid ! k) = Some (snd (raw ! i)))"
    using step_hold_present [OF assms(1)] by (simp add: entry)
  moreover have "target_grid ! k < fst (hd raw) \<longrightarrow> snd (resample_rate raw target_grid ! k) = None"
    using step_hold_absent [OF assms(1,2)] by (simp add: entry)
  ultimately show ?thesis by blast
qed

theorem rate_step_hold_witness:
  "strictly_increasing [(1, 10), (3, 30)]
   \<and> snd (resample_rate [(1, 10), (3, 30)] [0, 1, 2, 3, 4] ! 0) = None
   \<and> snd (resample_rate [(1, 10), (3, 30)] [0, 1, 2, 3, 4] ! 2) = Some 10
   \<and> snd (resample_rate [(1, 10), (3, 30)] [0, 1, 2, 3, 4] ! 4) = Some 30"
proof -
  have inc: "strictly_increasing [(1, 10), (3, 30)]"
    by (simp add: strictly_increasing_def)
  have "snd (resample_rate [(1, 10), (3, 30)] [0, 1, 2, 3, 4] ! 0) = None"
    using rate_step_hold [where raw = "[(1, 10), (3, 30)]" and target_grid = "[0, 1, 2, 3, 4]"
        and k = 0] inc by simp
  moreover have "snd (resample_rate [(1, 10), (3, 30)] [0, 1, 2, 3, 4] ! 2) = Some 10"
    using rate_step_hold [where raw = "[(1, 10), (3, 30)]" and target_grid = "[0, 1, 2, 3, 4]"
        and k = 2] inc
    by (auto simp add: less_Suc_eq)
  moreover have "snd (resample_rate [(1, 10), (3, 30)] [0, 1, 2, 3, 4] ! 4) = Some 30"
    using rate_step_hold [where raw = "[(1, 10), (3, 30)]" and target_grid = "[0, 1, 2, 3, 4]"
        and k = 4] inc
    by (auto simp add: less_Suc_eq)
  ultimately show ?thesis using inc by blast
qed

end
